theory Spec2Isabelle
  imports Complex_Main
begin

section \<open>Values, exceptions and the vendor's objects\<close>

text \<open>
  \<^verbatim>\<open>Any\<close>-typed Python values that cross the adapter: the JSON-like values of message
  fields, tool definitions and tool-call arguments.
\<close>

datatype pyval =
    PNone
  | PBool bool
  | PInt int
  | PFloat real
  | PStr string
  | PList "pyval list"
  | PDict "(string \<times> pyval) list"

text \<open>
  An instance of a subclass of \<^verbatim>\<open>Exception\<close>: its class name and \<^verbatim>\<open>str(e)\<close>. Every
  \<^verbatim>\<open>except Exception\<close> of the source catches all of them. Signals that are not
  \<^verbatim>\<open>Exception\<close>s (task cancellation, interpreter exit) are outside the model.
\<close>

datatype py_exn = PyExn (exn_class: string) (exn_str: string)

text \<open>A dictionary \<^verbatim>\<open>dict[str, Any]\<close>: a chat message or a tool definition.\<close>

type_synonym pydict = "string \<rightharpoonup> pyval"

text \<open>An entry of \<^verbatim>\<open>response.data\<close> of the model listing; only \<^verbatim>\<open>m.id\<close> is read.\<close>

datatype model_obj = ModelObj (model_id: string)

text \<open>The objects of a chat completion, as far as \<^verbatim>\<open>_parse\<close> reads them.\<close>

record function_obj =
  fn_name :: string
  fn_arguments :: pyval

record tool_call_obj =
  tc_id :: string
  tc_function :: function_obj

text \<open>
  \<^verbatim>\<open>reasoning_content\<close> is read with \<^verbatim>\<open>getattr(msg, "reasoning_content", None)\<close>: the
  outer \<open>None\<close> is a message without the attribute, \<open>Some None\<close> an attribute that is
  \<^verbatim>\<open>None\<close>.
\<close>

record message_obj =
  msg_content :: "string option"
  msg_tool_calls :: "tool_call_obj list option"
  msg_reasoning_content :: "string option option"

record choice_obj =
  ch_message :: message_obj
  ch_finish_reason :: "string option"

record usage_obj =
  prompt_tokens :: int
  completion_tokens :: int
  total_tokens :: int

record chat_completion =
  cc_choices :: "choice_obj list"
  cc_usage :: "usage_obj option"

text \<open>The keyword arguments of \<^verbatim>\<open>chat.completions.create\<close>; an absent key is \<open>None\<close>.\<close>

record chat_kwargs =
  kw_model :: string
  kw_messages :: "pydict list"
  kw_max_tokens :: int
  kw_temperature :: real
  kw_tools :: "pydict list option"
  kw_tool_choice :: "string option"

section \<open>The adapter's produced values\<close>

record ToolCallRequest =
  tcr_id :: string
  tcr_name :: string
  tcr_arguments :: pyval

record LLMResponse =
  content :: "string option"
  tool_calls :: "ToolCallRequest list"
  finish_reason :: string
  usage :: "string \<rightharpoonup> int"
  reasoning_content :: "string option"

section \<open>The endpoint, the store and the adapter's state\<close>

text \<open>
  What the adapter calls and does not own. \<open>models_list env k\<close> is the outcome of the
  \<open>k\<close>-th \<^verbatim>\<open>self._client.models.list()\<close> (counting from 0): an exception or
  \<^verbatim>\<open>response.data\<close>. \<open>chat_completions_create env k kw\<close> is the outcome of the
  \<open>k\<close>-th \<^verbatim>\<open>self._client.chat.completions.create(**kw)\<close>. \<open>json_repair_loads env\<close> is
  \<^verbatim>\<open>json_repair.loads\<close>, an external library.
\<close>

record env =
  models_list :: "nat \<Rightarrow> py_exn + model_obj list"
  chat_completions_create :: "nat \<Rightarrow> chat_kwargs \<Rightarrow> py_exn + chat_completion"
  json_repair_loads :: "string \<Rightarrow> py_exn + pyval"

text \<open>
  Python lists are objects with identity: \<open>cells w r\<close> is the content of the list
  object at reference \<open>r\<close>, and \<open>next_ref w\<close> is the next unused reference. The world
  also records every request that went out: the number of model listings and the
  keyword arguments of every chat request, in order.
\<close>

type_synonym ref = nat

record world =
  cells :: "ref \<Rightarrow> string list"
  next_ref :: ref
  models_list_calls :: nat
  completions_sent :: "chat_kwargs list"

definition new_list :: "string list \<Rightarrow> world \<Rightarrow> ref \<times> world" where
  "new_list xs w =
     (next_ref w, w\<lparr>cells := (cells w)(next_ref w := xs), next_ref := Suc (next_ref w)\<rparr>)"

text \<open>
  The fields of \<^verbatim>\<open>CustomProvider\<close>, without their leading underscore. The client
  handle \<^verbatim>\<open>_client\<close> is the \<open>env\<close> that every operation takes.
\<close>

record custom_provider =
  api_key :: string
  api_base :: string
  default_model :: string
  current_model :: string
  available_models :: ref
  models_loaded :: bool

type_synonym state = "custom_provider \<times> world"

definition catalog :: "state \<Rightarrow> string list" where
  "catalog st = cells (snd st) (available_models (fst st))"

text \<open>\<^verbatim>\<open>__init__\<close>: the empty list of line 20 is a new list object.\<close>

definition init :: "string \<Rightarrow> string \<Rightarrow> string \<Rightarrow> world \<Rightarrow> state" where
  "init key base dflt w =
     (case new_list [] w of (r, w') \<Rightarrow>
        (\<lparr>api_key = key, api_base = base, default_model = dflt, current_model = dflt,
          available_models = r, models_loaded = False\<rparr>, w'))"

section \<open>The model catalog\<close>

text \<open>
  \<^verbatim>\<open>_fetch_models\<close>, lines 24 to 33. The call is counted, then either the list
  comprehension or the \<^verbatim>\<open>[]\<close> of the handler builds a new list object. The result is
  a sum so that the \<^verbatim>\<open>try\<close> of \<^verbatim>\<open>refresh_models\<close> has something to catch; logging is
  not modelled.
\<close>

definition fetch_models :: "env \<Rightarrow> world \<Rightarrow> (py_exn + ref) \<times> world" where
  "fetch_models ev w =
     (let w1 = w\<lparr>models_list_calls := Suc (models_list_calls w)\<rparr> in
      case models_list ev (models_list_calls w) of
        Inr data \<Rightarrow> (case new_list (map model_id data) w1 of (r, w2) \<Rightarrow> (Inr r, w2))
      | Inl e \<Rightarrow> (case new_list [] w1 of (r, w2) \<Rightarrow> (Inr r, w2)))"

text \<open>
  \<^verbatim>\<open>_ensure_models_loaded\<close>, lines 35 to 39. It has no handler: an exception of
  \<^verbatim>\<open>_fetch_models\<close> would leave it.
\<close>

definition ensure_models_loaded :: "env \<Rightarrow> state \<Rightarrow> (py_exn + unit) \<times> state" where
  "ensure_models_loaded ev st =
     (case st of (p, w) \<Rightarrow>
        (if \<not> models_loaded p then
           (case fetch_models ev w of
              (Inl e, w') \<Rightarrow> (Inl e, (p, w'))
            | (Inr r, w') \<Rightarrow> (Inr (), (p\<lparr>available_models := r, models_loaded := True\<rparr>, w')))
         else (Inr (), (p, w))))"

text \<open>\<^verbatim>\<open>list_models\<close>, lines 74 to 76: \<^verbatim>\<open>.copy()\<close> builds a new list object.\<close>

definition list_models :: "env \<Rightarrow> state \<Rightarrow> (py_exn + ref) \<times> state" where
  "list_models ev st =
     (case ensure_models_loaded ev st of
        (Inl e, st') \<Rightarrow> (Inl e, st')
      | (Inr u, (p, w)) \<Rightarrow>
          (case new_list (cells w (available_models p)) w of (r, w') \<Rightarrow> (Inr r, (p, w'))))"

definition get_default_model :: "state \<Rightarrow> string" where
  "get_default_model st = default_model (fst st)"

definition get_current_model :: "state \<Rightarrow> string" where
  "get_current_model st = current_model (fst st)"

text \<open>\<^verbatim>\<open>set_model\<close>, lines 81 to 92; a string is true when it is not empty.\<close>

definition set_model :: "string \<Rightarrow> state \<Rightarrow> bool \<times> state" where
  "set_model model_name st =
     (case st of (p, w) \<Rightarrow>
        (if models_loaded p then
           (if model_name \<in> set (cells w (available_models p))
            then (True, (p\<lparr>current_model := model_name\<rparr>, w))
            else (False, (p, w)))
         else if model_name \<noteq> [] then (True, (p\<lparr>current_model := model_name\<rparr>, w))
         else (False, (p, w))))"

text \<open>\<^verbatim>\<open>refresh_models\<close>, lines 94 to 100.\<close>

definition refresh_models :: "env \<Rightarrow> state \<Rightarrow> bool \<times> state" where
  "refresh_models ev st =
     (case st of (p, w) \<Rightarrow>
        (case fetch_models ev w of
           (Inr r, w') \<Rightarrow> (True, (p\<lparr>available_models := r, models_loaded := True\<rparr>, w'))
         | (Inl e, w') \<Rightarrow> (False, (p, w'))))"

section \<open>Chat\<close>

text \<open>
  Modelled from the spec: \<^verbatim>\<open>_sanitize_empty_content\<close> is inherited from \<^verbatim>\<open>LLMProvider\<close>
  (\<^verbatim>\<open>nanobot/providers/base.py\<close>), which is not among the sources. The spec (4.1): any
  message whose content is empty or missing is normalized to an explicit empty-string
  content before transmission. Missing is a message without the key or with
  \<^verbatim>\<open>None\<close>; empty is the empty string or the empty list of content parts.
\<close>

definition is_empty_content :: "pyval option \<Rightarrow> bool" where
  "is_empty_content c =
     (case c of
        None \<Rightarrow> True
      | Some PNone \<Rightarrow> True
      | Some (PStr s) \<Rightarrow> s = []
      | Some (PList parts) \<Rightarrow> parts = []
      | Some _ \<Rightarrow> False)"

text \<open>
  Modelled from the spec: the helper itself, see \<open>is_empty_content\<close>. Every other
  message, and every other key of a message it changes, is passed on as it is.
\<close>

definition sanitize_empty_content :: "pydict list \<Rightarrow> pydict list" where
  "sanitize_empty_content messages =
     map (\<lambda>msg. if is_empty_content (msg ''content'') then msg(''content'' \<mapsto> PStr [])
               else msg) messages"

text \<open>
  Lines 43 to 50 of \<^verbatim>\<open>chat\<close>: the keyword arguments. \<^verbatim>\<open>model or self._current_model\<close>
  takes the current model for \<^verbatim>\<open>None\<close> and for the empty string; \<^verbatim>\<open>if tools\<close> holds for
  a list that is not empty.
\<close>

definition build_kwargs ::
  "custom_provider \<Rightarrow> pydict list \<Rightarrow> pydict list option \<Rightarrow> string option \<Rightarrow> int \<Rightarrow> real
     \<Rightarrow> chat_kwargs" where
  "build_kwargs p messages tools model max_tokens temperature =
     (let kwargs =
        \<lparr>kw_model = (case model of
                       None \<Rightarrow> current_model p
                     | Some m \<Rightarrow> if m \<noteq> [] then m else current_model p),
         kw_messages = sanitize_empty_content messages,
         kw_max_tokens = max 1 max_tokens,
         kw_temperature = temperature,
         kw_tools = None,
         kw_tool_choice = None\<rparr>
      in (case tools of
            Some (t # ts) \<Rightarrow> kwargs\<lparr>kw_tools := tools, kw_tool_choice := Some ''auto''\<rparr>
          | _ \<Rightarrow> kwargs))"

text \<open>
  Line 61: a string is handed to \<^verbatim>\<open>json_repair.loads\<close>, anything else is kept. The
  list comprehension of lines 59 to 63 stops at the first exception.
\<close>

definition parse_arguments :: "env \<Rightarrow> pyval \<Rightarrow> py_exn + pyval" where
  "parse_arguments ev a = (case a of PStr s \<Rightarrow> json_repair_loads ev s | _ \<Rightarrow> Inr a)"

fun tool_call_requests :: "env \<Rightarrow> tool_call_obj list \<Rightarrow> py_exn + ToolCallRequest list" where
  "tool_call_requests ev [] = Inr []"
| "tool_call_requests ev (tc # tcs) =
     (case parse_arguments ev (fn_arguments (tc_function tc)) of
        Inl e \<Rightarrow> Inl e
      | Inr a \<Rightarrow>
          (case tool_call_requests ev tcs of
             Inl e \<Rightarrow> Inl e
           | Inr rs \<Rightarrow>
               Inr (\<lparr>tcr_id = tc_id tc, tcr_name = fn_name (tc_function tc),
                      tcr_arguments = a\<rparr> # rs)))"

text \<open>
  \<^verbatim>\<open>_parse\<close>, lines 56 to 69. \<^verbatim>\<open>response.choices[0]\<close> raises \<^verbatim>\<open>IndexError\<close> on an
  empty list. \<^verbatim>\<open>x or y\<close> is \<open>y\<close> when \<open>x\<close> is \<^verbatim>\<open>None\<close> or empty.
\<close>

definition parse :: "env \<Rightarrow> chat_completion \<Rightarrow> py_exn + LLMResponse" where
  "parse ev response =
     (case cc_choices response of
        [] \<Rightarrow> Inl (PyExn ''IndexError'' ''list index out of range'')
      | choice # _ \<Rightarrow>
          (let msg = ch_message choice in
           case tool_call_requests ev
                  (case msg_tool_calls msg of None \<Rightarrow> [] | Some tcs \<Rightarrow> tcs) of
             Inl e \<Rightarrow> Inl e
           | Inr reqs \<Rightarrow>
               Inr \<lparr>content = msg_content msg,
                    tool_calls = reqs,
                    finish_reason =
                      (case ch_finish_reason choice of
                         None \<Rightarrow> ''stop''
                       | Some s \<Rightarrow> if s \<noteq> [] then s else ''stop''),
                    usage =
                      (case cc_usage response of
                         Some u \<Rightarrow>
                           [''prompt_tokens'' \<mapsto> prompt_tokens u,
                            ''completion_tokens'' \<mapsto> completion_tokens u,
                            ''total_tokens'' \<mapsto> total_tokens u]
                       | None \<Rightarrow> Map.empty),
                    reasoning_content =
                      (case msg_reasoning_content msg of
                         Some (Some s) \<Rightarrow> if s \<noteq> [] then Some s else None
                       | _ \<Rightarrow> None)\<rparr>))"

text \<open>
  Line 54, \<^verbatim>\<open>LLMResponse(content=f"Error: {e}", finish_reason="error")\<close>. The record's
  declaration is in \<^verbatim>\<open>base.py\<close>; the fields the call does not give take the empty
  values of the spec's data model (3).
\<close>

definition error_response :: "py_exn \<Rightarrow> LLMResponse" where
  "error_response e =
     \<lparr>content = Some (''Error: '' @ exn_str e), tool_calls = [], finish_reason = ''error'',
      usage = Map.empty, reasoning_content = None\<rparr>"

text \<open>
  \<^verbatim>\<open>chat\<close>, lines 41 to 54. The request is recorded as sent whether or not the endpoint
  answers it; \<^verbatim>\<open>_parse\<close> runs inside the \<^verbatim>\<open>try\<close>, and the handler turns every
  exception into a response. The result is a sum so that a call that raised would
  show as \<open>Inl\<close>.
\<close>

definition chat ::
  "env \<Rightarrow> pydict list \<Rightarrow> pydict list option \<Rightarrow> string option \<Rightarrow> int \<Rightarrow> real \<Rightarrow> state
     \<Rightarrow> (py_exn + LLMResponse) \<times> state" where
  "chat ev messages tools model max_tokens temperature st =
     (case st of (p, w) \<Rightarrow>
        (let kwargs = build_kwargs p messages tools model max_tokens temperature;
             w' = w\<lparr>completions_sent := completions_sent w @ [kwargs]\<rparr>
         in (case (case chat_completions_create ev (length (completions_sent w)) kwargs of
                     Inl e \<Rightarrow> Inl e
                   | Inr response \<Rightarrow> parse ev response) of
               Inr r \<Rightarrow> (Inr r, (p, w'))
             | Inl e \<Rightarrow> (Inr (error_response e), (p, w')))))"

section \<open>Sequences of calls\<close>

datatype op =
    Chat "pydict list" "pydict list option" "string option" int real
  | GetDefaultModel
  | ListModels
  | GetCurrentModel
  | SetModel string
  | RefreshModels

fun step :: "env \<Rightarrow> op \<Rightarrow> state \<Rightarrow> state" where
  "step ev (Chat messages tools model max_tokens temperature) st =
     snd (chat ev messages tools model max_tokens temperature st)"
| "step ev GetDefaultModel st = st"
| "step ev ListModels st = snd (list_models ev st)"
| "step ev GetCurrentModel st = st"
| "step ev (SetModel n) st = snd (set_model n st)"
| "step ev RefreshModels st = snd (refresh_models ev st)"

fun run :: "env \<Rightarrow> op list \<Rightarrow> state \<Rightarrow> state" where
  "run ev [] st = st"
| "run ev (x # xs) st = run ev xs (step ev x st)"

text \<open>
  What a caller can do with a list it holds: replace the content of the list object at
  \<open>r\<close> by \<open>f\<close> of it (append, clear, sort, item assignment).
\<close>

definition caller_mutates :: "ref \<Rightarrow> (string list \<Rightarrow> string list) \<Rightarrow> world \<Rightarrow> world" where
  "caller_mutates r f w = w\<lparr>cells := (cells w)(r := f (cells w r))\<rparr>"

text \<open>The adapter's list object is one that has been built.\<close>

definition wf_state :: "state \<Rightarrow> bool" where
  "wf_state st = (available_models (fst st) < next_ref (snd st))"

text \<open>The \<open>k\<close>-th model listing raises or lists no model.\<close>

definition fetch_gives_nothing :: "env \<Rightarrow> nat \<Rightarrow> bool" where
  "fetch_gives_nothing ev k = (case models_list ev k of Inl e \<Rightarrow> True | Inr d \<Rightarrow> d = [])"

text \<open>The state a failed first load leaves: loaded, with an empty catalog.\<close>

definition stuck :: "state \<Rightarrow> bool" where
  "stuck st = (models_loaded (fst st) \<and> catalog st = [] \<and> wf_state st)"

section \<open>Concrete endpoints and states\<close>

definition down :: py_exn where
  "down = PyExn ''APIConnectionError'' ''Connection error.''"

definition w0 :: world where
  "w0 = \<lparr>cells = (\<lambda>r. []), next_ref = 0, models_list_calls = 0, completions_sent = []\<rparr>"

definition fresh :: state where
  "fresh = init ''no-key'' ''http://localhost:8000/v1'' ''default'' w0"

text \<open>A repair step that mends a trailing comma and gives the empty string for the rest.\<close>

definition repair :: "string \<Rightarrow> py_exn + pyval" where
  "repair s =
     (if s = ''[1, 2,]'' then Inr (PList [PInt 1, PInt 2])
      else if s = ''[3]'' then Inr (PList [PInt 3])
      else Inr (PStr []))"

text \<open>An endpoint that is down, and one that lists two models and always replies \<open>r\<close>.\<close>

definition ev_down :: env where
  "ev_down =
     \<lparr>models_list = (\<lambda>k. Inl down), chat_completions_create = (\<lambda>k kw. Inl down),
      json_repair_loads = repair\<rparr>"

definition serving :: "chat_completion \<Rightarrow> env" where
  "serving r =
     \<lparr>models_list = (\<lambda>k. Inr [ModelObj ''gpt-a'', ModelObj ''gpt-b'']),
      chat_completions_create = (\<lambda>k kw. Inr r),
      json_repair_loads = repair\<rparr>"

definition reply_plain :: chat_completion where
  "reply_plain =
     \<lparr>cc_choices =
        [\<lparr>ch_message = \<lparr>msg_content = Some ''hi'', msg_tool_calls = None,
                         msg_reasoning_content = None\<rparr>,
          ch_finish_reason = None\<rparr>],
      cc_usage = None\<rparr>"

definition reply_full :: chat_completion where
  "reply_full =
     \<lparr>cc_choices =
        [\<lparr>ch_message = \<lparr>msg_content = Some ''hi'', msg_tool_calls = Some [],
                         msg_reasoning_content = Some (Some ''thinking'')\<rparr>,
          ch_finish_reason = Some ''length''\<rparr>],
      cc_usage = Some \<lparr>prompt_tokens = 5, completion_tokens = 7, total_tokens = 12\<rparr>\<rparr>"

definition reply_tools :: chat_completion where
  "reply_tools =
     \<lparr>cc_choices =
        [\<lparr>ch_message =
            \<lparr>msg_content = None,
             msg_tool_calls =
               Some [\<lparr>tc_id = ''call_1'',
                       tc_function = \<lparr>fn_name = ''read'', fn_arguments = PStr ''[3]''\<rparr>\<rparr>,
                     \<lparr>tc_id = ''call_2'',
                       tc_function = \<lparr>fn_name = ''write'', fn_arguments = PStr ''[1, 2,]''\<rparr>\<rparr>],
             msg_reasoning_content = None\<rparr>,
          ch_finish_reason = Some ''tool_calls''\<rparr>],
      cc_usage = None\<rparr>"

definition reply_empty :: chat_completion where
  "reply_empty = \<lparr>cc_choices = [], cc_usage = None\<rparr>"

section \<open>What the catalog operations compute\<close>

lemma fetch_models_result:
  "fetch_models ev w =
     (Inr (next_ref w),
      w\<lparr>cells := (cells w)(next_ref w :=
                   (case models_list ev (models_list_calls w) of
                      Inl e \<Rightarrow> [] | Inr d \<Rightarrow> map model_id d)),
        next_ref := Suc (next_ref w),
        models_list_calls := Suc (models_list_calls w)\<rparr>)"
  by (simp add: fetch_models_def new_list_def split: sum.split)

lemma ensure_models_loaded_result:
  "ensure_models_loaded ev (p, w) =
     (if models_loaded p then (Inr (), (p, w))
      else (Inr (), (p\<lparr>available_models := next_ref w, models_loaded := True\<rparr>,
                     snd (fetch_models ev w))))"
  by (simp add: ensure_models_loaded_def fetch_models_result)

lemma list_models_result:
  "list_models ev (p, w) =
     (case snd (ensure_models_loaded ev (p, w)) of (p', w') \<Rightarrow>
        (Inr (next_ref w'),
         (p', w'\<lparr>cells := (cells w')(next_ref w' := cells w' (available_models p')),
                 next_ref := Suc (next_ref w')\<rparr>)))"
  by (simp add: list_models_def ensure_models_loaded_result new_list_def)

lemma refresh_models_result:
  "refresh_models ev (p, w) =
     (True, (p\<lparr>available_models := next_ref w, models_loaded := True\<rparr>,
             snd (fetch_models ev w)))"
  by (simp add: refresh_models_def fetch_models_result)

lemma set_model_state:
  "snd (set_model n (p, w)) =
     (if fst (set_model n (p, w)) then p\<lparr>current_model := n\<rparr> else p, w)"
  by (simp add: set_model_def)

section \<open>What chat computes\<close>

lemma chat_state:
  "snd (chat ev ms tools model mt temp (p, w)) =
     (p, w\<lparr>completions_sent :=
              completions_sent w @ [build_kwargs p ms tools model mt temp]\<rparr>)"
  by (simp add: chat_def Let_def split: sum.split)

lemma chat_result:
  "fst (chat ev ms tools model mt temp (p, w)) =
     Inr (case chat_completions_create ev (length (completions_sent w))
                 (build_kwargs p ms tools model mt temp) of
            Inl e \<Rightarrow> error_response e
          | Inr r \<Rightarrow> (case parse ev r of Inl e \<Rightarrow> error_response e | Inr resp \<Rightarrow> resp))"
  by (simp add: chat_def Let_def split: sum.split)

lemma build_kwargs_fields:
  "kw_max_tokens (build_kwargs p ms tools model mt temp) = max 1 mt"
  "kw_messages (build_kwargs p ms tools model mt temp) = sanitize_empty_content ms"
  "kw_temperature (build_kwargs p ms tools model mt temp) = temp"
  "kw_model (build_kwargs p ms tools model mt temp) =
     (case model of None \<Rightarrow> current_model p
      | Some m \<Rightarrow> if m \<noteq> [] then m else current_model p)"
  by (simp_all add: build_kwargs_def Let_def split: option.split list.split)

lemma parse_fields:
  assumes "parse ev r = Inr resp" and "cc_choices r = c # cs"
  shows "content resp = msg_content (ch_message c)"
    and "tool_call_requests ev
           (case msg_tool_calls (ch_message c) of None \<Rightarrow> [] | Some tcs \<Rightarrow> tcs) =
         Inr (tool_calls resp)"
    and "finish_reason resp =
           (case ch_finish_reason c of None \<Rightarrow> ''stop''
            | Some s \<Rightarrow> if s \<noteq> [] then s else ''stop'')"
    and "usage resp =
           (case cc_usage r of
              Some u \<Rightarrow> [''prompt_tokens'' \<mapsto> prompt_tokens u,
                         ''completion_tokens'' \<mapsto> completion_tokens u,
                         ''total_tokens'' \<mapsto> total_tokens u]
            | None \<Rightarrow> Map.empty)"
    and "reasoning_content resp =
           (case msg_reasoning_content (ch_message c) of
              Some (Some s) \<Rightarrow> if s \<noteq> [] then Some s else None
            | _ \<Rightarrow> None)"
  using assms by (auto simp: parse_def Let_def split: sum.splits)

lemma parse_succeeds:
  assumes "cc_choices r = c # cs"
    and "tool_call_requests ev
           (case msg_tool_calls (ch_message c) of None \<Rightarrow> [] | Some tcs \<Rightarrow> tcs) = Inr reqs"
  shows "\<exists>resp. parse ev r = Inr resp \<and> tool_calls resp = reqs"
  using assms by (simp add: parse_def Let_def)

lemma tool_call_requests_all:
  assumes "\<forall>tc\<in>set tcs. \<exists>s v. fn_arguments (tc_function tc) = PStr s \<and>
             json_repair_loads ev s = Inr v"
  shows "\<exists>reqs. tool_call_requests ev tcs = Inr reqs \<and>
           list_all2 (\<lambda>tc rq. tcr_id rq = tc_id tc \<and> tcr_name rq = fn_name (tc_function tc) \<and>
              (\<exists>s. fn_arguments (tc_function tc) = PStr s \<and>
                   json_repair_loads ev s = Inr (tcr_arguments rq))) tcs reqs"
  using assms
proof (induction tcs)
  case Nil
  then show ?case by simp
next
  case (Cons tc tcs)
  then obtain s v where a: "fn_arguments (tc_function tc) = PStr s" "json_repair_loads ev s = Inr v"
    by auto
  from Cons obtain reqs where r: "tool_call_requests ev tcs = Inr reqs"
    "list_all2 (\<lambda>tc rq. tcr_id rq = tc_id tc \<and> tcr_name rq = fn_name (tc_function tc) \<and>
              (\<exists>s. fn_arguments (tc_function tc) = PStr s \<and>
                   json_repair_loads ev s = Inr (tcr_arguments rq))) tcs reqs"
    by auto
  show ?case
    using a r by (simp add: parse_arguments_def)
qed

section \<open>Invariants of call sequences\<close>

lemma step_loaded:
  "models_loaded (fst st) \<Longrightarrow> models_loaded (fst (step ev x st))"
  by (cases st; cases x)
     (simp_all add: chat_state set_model_state list_models_result ensure_models_loaded_result
        refresh_models_result)

lemma run_loaded:
  "models_loaded (fst st) \<Longrightarrow> models_loaded (fst (run ev xs st))"
  by (induction xs arbitrary: st) (simp_all add: step_loaded)

lemma step_calls:
  "models_list_calls (snd st) \<le> models_list_calls (snd (step ev x st))"
  by (cases st; cases x)
     (simp_all add: chat_state set_model_state list_models_result ensure_models_loaded_result
        refresh_models_result fetch_models_result)

lemma wf_init: "wf_state (init key base dflt w)"
  by (simp add: init_def new_list_def wf_state_def)

lemma wf_step: "wf_state st \<Longrightarrow> wf_state (step ev x st)"
  by (cases st; cases x)
     (simp_all add: chat_state set_model_state list_models_result ensure_models_loaded_result
        refresh_models_result fetch_models_result wf_state_def)

lemma wf_run: "wf_state st \<Longrightarrow> wf_state (run ev xs st)"
  by (induction xs arbitrary: st) (simp_all add: wf_step)

lemma caller_mutates_frame:
  "a \<noteq> available_models p \<Longrightarrow> catalog (p, caller_mutates a f w) = catalog (p, w)"
  "next_ref (caller_mutates a f w) = next_ref w"
  "models_list_calls (caller_mutates a f w) = models_list_calls w"
  "completions_sent (caller_mutates a f w) = completions_sent w"
  by (simp_all add: caller_mutates_def catalog_def)

lemma list_models_copy:
  assumes "wf_state (p, w)"
  shows "\<exists>a p' w'. list_models ev (p, w) = (Inr a, (p', w')) \<and>
           wf_state (p', w') \<and> models_loaded p' \<and>
           a \<noteq> available_models p' \<and>
           cells w' a = catalog (p', w') \<and>
           models_list_calls w' = models_list_calls w + (if models_loaded p then 0 else 1) \<and>
           (models_loaded p \<longrightarrow> p' = p \<and> catalog (p', w') = catalog (p, w))"
  using assms
  by (auto simp: list_models_result ensure_models_loaded_result fetch_models_result
      wf_state_def catalog_def)

lemma stuck_set_model: "stuck st \<Longrightarrow> set_model n st = (False, st)"
  by (cases st) (simp add: stuck_def set_model_def catalog_def)

lemma stuck_step:
  assumes "stuck st"
    and "x = RefreshModels \<Longrightarrow> fetch_gives_nothing ev (models_list_calls (snd st))"
  shows "stuck (step ev x st)"
proof (cases st)
  case (Pair p w)
  show ?thesis
  proof (cases x)
    case RefreshModels
    with assms Pair show ?thesis
      by (auto simp: stuck_def refresh_models_result fetch_models_result catalog_def
          wf_state_def fetch_gives_nothing_def split: sum.splits)
  next
    case (SetModel n)
    with assms(1) show ?thesis by (simp add: stuck_set_model)
  next
    case ListModels
    with assms(1) Pair show ?thesis
      by (auto simp: stuck_def list_models_result ensure_models_loaded_result catalog_def
          wf_state_def)
  next
    case (Chat ms tools model mt temp)
    with assms(1) Pair show ?thesis
      by (simp add: stuck_def chat_state catalog_def wf_state_def)
  qed (use assms(1) in simp_all)
qed

lemma stuck_run:
  assumes "stuck st"
    and "RefreshModels \<in> set xs \<Longrightarrow>
           \<forall>k\<ge>models_list_calls (snd st). fetch_gives_nothing ev k"
  shows "stuck (run ev xs st)"
  using assms
proof (induction xs arbitrary: st)
  case Nil
  then show ?case by simp
next
  case (Cons x xs)
  have 1: "stuck (step ev x st)"
    using Cons.prems by (intro stuck_step) auto
  have 2: "\<forall>k\<ge>models_list_calls (snd (step ev x st)). fetch_gives_nothing ev k"
    if "RefreshModels \<in> set xs"
    using Cons.prems(2) that step_calls [of st ev x] by auto
  show ?case
    using Cons.IH [OF 1 2] by simp
qed

lemma failed_first_load:
  assumes "\<not> models_loaded (fst st)"
    and "models_list ev (models_list_calls (snd st)) = Inl e"
  shows "stuck (snd (list_models ev st)) \<and>
         models_list_calls (snd (snd (list_models ev st))) = Suc (models_list_calls (snd st))"
  using assms
  by (cases st)
     (simp add: stuck_def list_models_result ensure_models_loaded_result fetch_models_result
        catalog_def wf_state_def)

lemma fresh_eq:
  "fresh =
     (\<lparr>api_key = ''no-key'', api_base = ''http://localhost:8000/v1'', default_model = ''default'',
       current_model = ''default'', available_models = 0, models_loaded = False\<rparr>,
      \<lparr>cells = (\<lambda>r. []), next_ref = Suc 0, models_list_calls = 0, completions_sent = []\<rparr>)"
  by (simp add: fresh_def init_def new_list_def w0_def fun_eq_iff)

section \<open>Switching the model\<close>

text \<open>
  C3. With the catalog loaded, \<open>set_model\<close> returns true exactly for the members of the
  catalog; with the catalog not loaded, it returns true exactly for the non-empty names.
  Whenever it returns true, the current model is the name and nothing else has changed;
  whenever it returns false, the whole state is as before.
\<close>

theorem set_model_spec:
  "(models_loaded p \<longrightarrow> fst (set_model n (p, w)) = (n \<in> set (catalog (p, w)))) \<and>
   (\<not> models_loaded p \<longrightarrow> fst (set_model n (p, w)) = (n \<noteq> [])) \<and>
   (fst (set_model n (p, w)) \<longrightarrow> snd (set_model n (p, w)) = (p\<lparr>current_model := n\<rparr>, w)) \<and>
   (\<not> fst (set_model n (p, w)) \<longrightarrow> snd (set_model n (p, w)) = (p, w))"
  by (simp add: set_model_def catalog_def)

theorem set_model_spec_witness:
  "fst (set_model ''gpt-x'' fresh) \<and>
   snd (set_model ''gpt-x'' fresh) = ((fst fresh)\<lparr>current_model := ''gpt-x''\<rparr>, snd fresh) \<and>
   \<not> fst (set_model [] fresh) \<and>
   snd (set_model [] fresh) = fresh \<and>
   fst (set_model ''gpt-b'' (run (serving reply_plain) [ListModels] fresh)) \<and>
   \<not> fst (set_model ''gpt-x'' (run (serving reply_plain) [ListModels] fresh)) \<and>
   snd (set_model ''gpt-x'' (run (serving reply_plain) [ListModels] fresh)) =
     run (serving reply_plain) [ListModels] fresh"
proof -
  obtain p w where f: "fresh = (p, w)" by (cases fresh)
  obtain q v where l: "snd (list_models (serving reply_plain) (p, w)) = (q, v)"
    by (cases "snd (list_models (serving reply_plain) (p, w))")
  have np: "\<not> models_loaded p"
    using f by (auto simp: fresh_def init_def new_list_def)
  have lq: "models_loaded q" and cat: "catalog (q, v) = [''gpt-a'', ''gpt-b'']"
    using l by (auto simp: list_models_result ensure_models_loaded_result fetch_models_result
        np catalog_def serving_def split: prod.splits)
  show ?thesis
    using set_model_spec [of p "''gpt-x''" w] set_model_spec [of p "[]" w]
      set_model_spec [of q "''gpt-b''" v] set_model_spec [of q "''gpt-x''" v]
    by (simp add: f l np lq cat)
qed

section \<open>Refreshing the catalog\<close>

text \<open>
  \<open>refresh_models\<close> always fetches once more, replaces the adapter's list by a new one
  and marks the catalog loaded. The handler of \<^verbatim>\<open>_fetch_models\<close> catches every
  exception, so the handler of \<^verbatim>\<open>refresh_models\<close> never runs and the result is true
  whatever the endpoint did.
\<close>

lemma refresh_models_effect:
  "refresh_models ev (p, w) = (b, (p', w')) \<Longrightarrow>
     b \<and> models_loaded p' \<and>
     models_list_calls w' = Suc (models_list_calls w) \<and>
     catalog (p', w') =
       (case models_list ev (models_list_calls w) of Inl e \<Rightarrow> [] | Inr d \<Rightarrow> map model_id d) \<and>
     current_model p' = current_model p"
  by (auto simp: refresh_models_result fetch_models_result catalog_def)

text \<open>
  C1, at an endpoint whose model listing raises: \<open>refresh_models\<close> returns true, not
  false, with the catalog replaced by the empty list and marked loaded.
\<close>

theorem refresh_models_fetch_failure:
  "models_list ev_down (models_list_calls (snd fresh)) = Inl down \<and>
   fst (refresh_models ev_down fresh) = True \<and>
   models_loaded (fst (snd (refresh_models ev_down fresh))) \<and>
   catalog (snd (refresh_models ev_down fresh)) = []"
  by (simp add: refresh_models_def fetch_models_result fresh_def init_def new_list_def
      w0_def ev_down_def catalog_def)

section \<open>Listing the models\<close>

text \<open>
  C4. From a state in which the adapter's list has been built, \<open>list_models\<close> returns
  a list object \<open>a1\<close> that is not the adapter's own and holds the catalog. It fetches
  once if the catalog was not loaded and not at all if it was, whatever the endpoint
  answered. Whatever the caller then does to \<open>a1\<close>, the catalog is as before, and a
  second \<open>list_models\<close> fetches nothing and returns another copy of the same catalog.
\<close>

theorem list_models_fetches_once:
  assumes "wf_state st"
  shows "\<exists>a1 st1 a2 st2.
     list_models ev st = (Inr a1, st1) \<and>
     list_models ev (fst st1, caller_mutates a1 f (snd st1)) = (Inr a2, st2) \<and>
     models_list_calls (snd st1) =
       models_list_calls (snd st) + (if models_loaded (fst st) then 0 else 1) \<and>
     models_list_calls (snd st2) = models_list_calls (snd st1) \<and>
     cells (snd st1) a1 = catalog st1 \<and> a1 \<noteq> available_models (fst st1) \<and>
     catalog (fst st1, caller_mutates a1 f (snd st1)) = catalog st1 \<and>
     fst st2 = fst st1 \<and> catalog st2 = catalog st1 \<and>
     cells (snd st2) a2 = catalog st1 \<and> a2 \<noteq> available_models (fst st2)"
proof -
  obtain p w where st: "st = (p, w)" by (cases st)
  from list_models_copy [OF assms [unfolded st], of ev]
  obtain a1 p1 w1 where 1: "list_models ev (p, w) = (Inr a1, (p1, w1))"
    "wf_state (p1, w1)" "models_loaded p1" "a1 \<noteq> available_models p1"
    "cells w1 a1 = catalog (p1, w1)"
    "models_list_calls w1 = models_list_calls w + (if models_loaded p then 0 else 1)"
    by blast
  let ?w = "caller_mutates a1 f w1"
  have wf: "wf_state (p1, ?w)"
    using 1(2) by (simp add: wf_state_def caller_mutates_frame)
  have cat: "catalog (p1, ?w) = catalog (p1, w1)"
    using 1(4) by (rule caller_mutates_frame)
  from list_models_copy [OF wf, of ev]
  obtain a2 p2 w2 where 2: "list_models ev (p1, ?w) = (Inr a2, (p2, w2))"
    "a2 \<noteq> available_models p2" "cells w2 a2 = catalog (p2, w2)"
    "models_list_calls w2 = models_list_calls ?w + (if models_loaded p1 then 0 else 1)"
    "p2 = p1" "catalog (p2, w2) = catalog (p1, ?w)"
    using 1(3) by blast
  show ?thesis
    using 1 2 cat by (auto simp: st caller_mutates_frame)
qed

theorem list_models_fetches_once_witness:
  "wf_state fresh \<and> \<not> models_loaded (fst fresh) \<and>
   models_list ev_down (models_list_calls (snd fresh)) = Inl down \<and>
   models_list_calls (snd (run ev_down [ListModels, ListModels] fresh)) = 1 \<and>
   (\<exists>a1 st1 a2 st2.
      list_models ev_down fresh = (Inr a1, st1) \<and>
      list_models ev_down (fst st1, caller_mutates a1 (\<lambda>xs. ''x'' # xs) (snd st1)) =
        (Inr a2, st2) \<and>
      models_list_calls (snd st2) = models_list_calls (snd fresh) + 1 \<and>
      a1 \<noteq> available_models (fst st1) \<and>
      cells (snd st1) a1 = catalog st1 \<and>
      catalog (fst st1, caller_mutates a1 (\<lambda>xs. ''x'' # xs) (snd st1)) = catalog st1 \<and>
      catalog st2 = catalog st1)"
proof -
  have wf: "wf_state fresh" by (simp add: fresh_def wf_init)
  have nl: "\<not> models_loaded (fst fresh)" by (simp add: fresh_eq)
  have dn: "models_list ev_down (models_list_calls (snd fresh)) = Inl down"
    by (simp add: ev_down_def)
  have two: "models_list_calls (snd (run ev_down [ListModels, ListModels] fresh)) = 1"
    by (simp add: fresh_eq list_models_result ensure_models_loaded_result fetch_models_result)
  from list_models_fetches_once [OF wf, of ev_down "\<lambda>xs. ''x'' # xs"]
  obtain a1 st1 a2 st2 where r:
    "list_models ev_down fresh = (Inr a1, st1)"
    "list_models ev_down (fst st1, caller_mutates a1 (\<lambda>xs. ''x'' # xs) (snd st1)) = (Inr a2, st2)"
    "a1 \<noteq> available_models (fst st1)"
    "cells (snd st1) a1 = catalog st1"
    "catalog (fst st1, caller_mutates a1 (\<lambda>xs. ''x'' # xs) (snd st1)) = catalog st1"
    "catalog st2 = catalog st1"
    and c: "models_list_calls (snd st1) =
       models_list_calls (snd fresh) + (if models_loaded (fst fresh) then 0 else 1)"
    "models_list_calls (snd st2) = models_list_calls (snd st1)"
    by blast
  have "models_list_calls (snd st2) = models_list_calls (snd fresh) + 1"
    using c nl by simp
  with r wf nl dn two show ?thesis by blast
qed

section \<open>The loaded flag\<close>

text \<open>
  C10. No sequence of calls takes \<open>models_loaded\<close> from true to false. When the first
  \<open>list_models\<close> of an adapter meets a failing fetch, then after any further calls among
  which every \<open>refresh_models\<close> finds the endpoint failing or listing nothing, the
  catalog is loaded and empty and \<open>set_model\<close> returns false for every name, leaving the
  state as it is. A \<open>refresh_models\<close> whose fetch succeeds makes \<open>set_model\<close> accept
  exactly the listed names.
\<close>

theorem models_loaded_never_reset:
  "(models_loaded (fst st) \<longrightarrow> models_loaded (fst (run ev xs st))) \<and>
   (\<not> models_loaded (fst st) \<and> models_list ev (models_list_calls (snd st)) = Inl e \<and>
    (RefreshModels \<in> set xs \<longrightarrow>
       (\<forall>k>models_list_calls (snd st). fetch_gives_nothing ev k)) \<longrightarrow>
      models_loaded (fst (run ev (ListModels # xs) st)) \<and>
      catalog (run ev (ListModels # xs) st) = [] \<and>
      (\<forall>n. set_model n (run ev (ListModels # xs) st) = (False, run ev (ListModels # xs) st))) \<and>
   (models_list ev (models_list_calls (snd st)) = Inr d \<longrightarrow>
      fst (refresh_models ev st) \<and>
      (\<forall>n. fst (set_model n (snd (refresh_models ev st))) = (n \<in> model_id ` set d)))"
proof (intro conjI impI allI)
  assume "models_loaded (fst st)"
  then show "models_loaded (fst (run ev xs st))" by (rule run_loaded)
next
  assume a: "\<not> models_loaded (fst st) \<and> models_list ev (models_list_calls (snd st)) = Inl e \<and>
    (RefreshModels \<in> set xs \<longrightarrow> (\<forall>k>models_list_calls (snd st). fetch_gives_nothing ev k))"
  let ?st1 = "snd (list_models ev st)"
  from a failed_first_load [of st ev e]
  have 1: "stuck ?st1" and c: "models_list_calls (snd ?st1) = Suc (models_list_calls (snd st))"
    by simp_all
  have "stuck (run ev xs ?st1)"
    using 1 a c by (intro stuck_run) auto
  then have s: "stuck (run ev (ListModels # xs) st)" by simp
  from s show "models_loaded (fst (run ev (ListModels # xs) st))" by (simp add: stuck_def)
  from s show "catalog (run ev (ListModels # xs) st) = []" by (simp add: stuck_def)
  fix n
  from s show "set_model n (run ev (ListModels # xs) st) = (False, run ev (ListModels # xs) st)"
    by (rule stuck_set_model)
next
  assume d: "models_list ev (models_list_calls (snd st)) = Inr d"
  show "fst (refresh_models ev st)"
    by (cases st) (simp add: refresh_models_result)
  fix n
  show "fst (set_model n (snd (refresh_models ev st))) = (n \<in> model_id ` set d)"
    using d by (cases st) (simp add: refresh_models_result fetch_models_result set_model_def)
qed

theorem models_loaded_never_reset_witness:
  "\<not> models_loaded (fst fresh) \<and>
   models_list ev_down (models_list_calls (snd fresh)) = Inl down \<and>
   RefreshModels \<in> set [SetModel ''gpt-a'', RefreshModels, Chat [] None None 16 1, ListModels] \<and>
   fetch_gives_nothing ev_down 1 \<and>
   models_loaded (fst (run ev_down
     [ListModels, SetModel ''gpt-a'', RefreshModels, Chat [] None None 16 1, ListModels] fresh)) \<and>
   catalog (run ev_down
     [ListModels, SetModel ''gpt-a'', RefreshModels, Chat [] None None 16 1, ListModels] fresh) = [] \<and>
   \<not> fst (set_model ''gpt-a'' (run ev_down
     [ListModels, SetModel ''gpt-a'', RefreshModels, Chat [] None None 16 1, ListModels] fresh)) \<and>
   models_list (serving reply_plain) (models_list_calls (snd (run ev_down [ListModels] fresh))) =
     Inr [ModelObj ''gpt-a'', ModelObj ''gpt-b''] \<and>
   fst (set_model ''gpt-a''
     (snd (refresh_models (serving reply_plain) (run ev_down [ListModels] fresh))))"
proof -
  have nl: "\<not> models_loaded (fst fresh)" by (simp add: fresh_eq)
  have dn: "models_list ev_down k = Inl down" for k by (simp add: ev_down_def)
  have fg: "fetch_gives_nothing ev_down k" for k by (simp add: fetch_gives_nothing_def dn)
  have up: "models_list (serving reply_plain) k = Inr [ModelObj ''gpt-a'', ModelObj ''gpt-b'']" for k
    by (simp add: serving_def)
  show ?thesis
    using models_loaded_never_reset [of fresh ev_down
        "[SetModel ''gpt-a'', RefreshModels, Chat [] None None 16 1, ListModels]" down]
      models_loaded_never_reset [of "run ev_down [ListModels] fresh" "serving reply_plain"
        "[]" down "[ModelObj ''gpt-a'', ModelObj ''gpt-b'']"]
      nl dn fg up
    by simp
qed

section \<open>Errors of a chat call\<close>

text \<open>
  C2. \<open>chat\<close> never raises: its result is always a response. When the request raises
  (transport, authentication, a reply the client cannot read) or \<^verbatim>\<open>_parse\<close> raises on
  the reply (no choice in it, or the repair step raising), the response has the finish
  reason \<^verbatim>\<open>"error"\<close> and the content \<^verbatim>\<open>"Error: "\<close> followed by the text of the exception.
\<close>

theorem chat_never_raises:
  "(\<exists>resp. fst (chat ev ms tools model mt temp (p, w)) = Inr resp) \<and>
   (chat_completions_create ev (length (completions_sent w))
        (build_kwargs p ms tools model mt temp) = Inl e \<or>
    (\<exists>r. chat_completions_create ev (length (completions_sent w))
            (build_kwargs p ms tools model mt temp) = Inr r \<and> parse ev r = Inl e) \<longrightarrow>
    (\<exists>resp. fst (chat ev ms tools model mt temp (p, w)) = Inr resp \<and>
       finish_reason resp = ''error'' \<and>
       content resp = Some (''Error: '' @ exn_str e)))"
  by (auto simp: chat_result error_response_def)

theorem chat_never_raises_witness:
  "chat_completions_create ev_down (length (completions_sent (snd fresh)))
     (build_kwargs (fst fresh) [] None None 16 1) = Inl down \<and>
   (\<exists>resp. fst (chat ev_down [] None None 16 1 fresh) = Inr resp \<and>
      finish_reason resp = ''error'' \<and> content resp = Some ''Error: Connection error.'') \<and>
   chat_completions_create (serving reply_empty) (length (completions_sent (snd fresh)))
     (build_kwargs (fst fresh) [] None None 16 1) = Inr reply_empty \<and>
   parse (serving reply_empty) reply_empty = Inl (PyExn ''IndexError'' ''list index out of range'') \<and>
   (\<exists>resp. fst (chat (serving reply_empty) [] None None 16 1 fresh) = Inr resp \<and>
      finish_reason resp = ''error'' \<and> content resp = Some ''Error: list index out of range'')"
proof -
  have 1: "chat_completions_create ev_down k kw = Inl down" for k kw
    by (simp add: ev_down_def)
  have 2: "chat_completions_create (serving reply_empty) k kw = Inr reply_empty" for k kw
    by (simp add: serving_def)
  have 3: "parse (serving reply_empty) reply_empty =
             Inl (PyExn ''IndexError'' ''list index out of range'')"
    by (simp add: parse_def reply_empty_def)
  show ?thesis
    using chat_never_raises [of ev_down "[]" None None 16 1 "fst fresh" "snd fresh" down]
      chat_never_raises [of "serving reply_empty" "[]" None None 16 1 "fst fresh" "snd fresh"
        "PyExn ''IndexError'' ''list index out of range''"]
    by (simp add: 1 2 3 down_def)
qed

section \<open>The request that is sent\<close>

text \<open>
  C5. Every \<open>chat\<close> sends exactly one request, and its \<^verbatim>\<open>max_tokens\<close> is 1 when the
  argument is zero or negative and the argument itself when it is at least 1.
\<close>

theorem chat_max_tokens:
  "\<exists>kw. completions_sent (snd (snd (chat ev ms tools model mt temp (p, w)))) =
          completions_sent w @ [kw] \<and>
        (mt \<le> 0 \<longrightarrow> kw_max_tokens kw = 1) \<and>
        (1 \<le> mt \<longrightarrow> kw_max_tokens kw = mt)"
  by (simp add: chat_state build_kwargs_fields)

theorem chat_max_tokens_witness:
  "(\<exists>kw. completions_sent (snd (snd (chat ev_down [] None None (- 5) 1 fresh))) = [kw] \<and>
      kw_max_tokens kw = 1) \<and>
   (\<exists>kw. completions_sent (snd (snd (chat ev_down [] None None 0 1 fresh))) = [kw] \<and>
      kw_max_tokens kw = 1) \<and>
   (\<exists>kw. completions_sent (snd (snd (chat ev_down [] None None 4096 1 fresh))) = [kw] \<and>
      kw_max_tokens kw = 4096)"
proof -
  have e: "completions_sent (snd fresh) = []" by (simp add: fresh_eq)
  show ?thesis
    using chat_max_tokens [of ev_down "[]" None None "- 5" 1 "fst fresh" "snd fresh"]
      chat_max_tokens [of ev_down "[]" None None 0 1 "fst fresh" "snd fresh"]
      chat_max_tokens [of ev_down "[]" None None 4096 1 "fst fresh" "snd fresh"]
    by (simp add: e)
qed

text \<open>
  C8. \<open>chat\<close> leaves the adapter as it was: the current model, the reference and the
  content of the catalog and the loaded flag are those before the call, whatever the
  arguments and the outcome. An explicit model (a non-empty name) is the model of the
  request sent, and the next call without one sends the current model again.
\<close>

theorem chat_model_override:
  "fst (snd (chat ev ms tools model mt temp (p, w))) = p \<and>
   current_model (fst (snd (chat ev ms tools model mt temp (p, w)))) = current_model p \<and>
   models_loaded (fst (snd (chat ev ms tools model mt temp (p, w)))) = models_loaded p \<and>
   available_models (fst (snd (chat ev ms tools model mt temp (p, w)))) = available_models p \<and>
   cells (snd (snd (chat ev ms tools model mt temp (p, w)))) = cells w \<and>
   catalog (snd (chat ev ms tools model mt temp (p, w))) = catalog (p, w) \<and>
   (\<forall>m. model = Some m \<and> m \<noteq> [] \<longrightarrow>
      kw_model (last (completions_sent (snd (snd (chat ev ms tools model mt temp (p, w)))))) = m) \<and>
   kw_model (last (completions_sent (snd (snd
      (chat ev ms' tools' None mt' temp' (snd (chat ev ms tools model mt temp (p, w)))))))) =
     current_model p"
  by (simp add: chat_state build_kwargs_fields catalog_def)

theorem chat_model_override_witness:
  "kw_model (last (completions_sent (snd (snd
      (chat (serving reply_plain) [] None (Some ''gpt-b'') 16 1 fresh))))) = ''gpt-b'' \<and>
   current_model (fst (snd (chat (serving reply_plain) [] None (Some ''gpt-b'') 16 1 fresh))) =
     ''default'' \<and>
   catalog (snd (chat (serving reply_plain) [] None (Some ''gpt-b'') 16 1 fresh)) = catalog fresh \<and>
   \<not> models_loaded (fst (snd (chat (serving reply_plain) [] None (Some ''gpt-b'') 16 1 fresh))) \<and>
   kw_model (last (completions_sent (snd (snd
      (chat (serving reply_plain) [] None None 16 1
         (snd (chat (serving reply_plain) [] None (Some ''gpt-b'') 16 1 fresh))))))) = ''default''"
proof -
  have f: "current_model (fst fresh) = ''default''" "\<not> models_loaded (fst fresh)"
    by (simp_all add: fresh_eq)
  show ?thesis
    using chat_model_override [of "serving reply_plain" "[]" None "Some ''gpt-b''" 16 1
        "fst fresh" "snd fresh" "[]" None 16 1]
    by (simp add: f)
qed

text \<open>
  C9, on the helper as the spec describes it. The request carries as many messages as
  were given, in order. A message whose content is absent or empty is sent with the
  content \<^verbatim>\<open>""\<close> and its other keys as they were; every other message is sent unchanged.
\<close>

theorem chat_sanitizes:
  "\<exists>kw. completions_sent (snd (snd (chat ev ms tools model mt temp (p, w)))) =
          completions_sent w @ [kw] \<and>
        length (kw_messages kw) = length ms \<and>
        (\<forall>i<length ms.
           (is_empty_content ((ms ! i) ''content'') \<longrightarrow>
              (kw_messages kw ! i) ''content'' = Some (PStr []) \<and>
              (\<forall>k. k \<noteq> ''content'' \<longrightarrow> (kw_messages kw ! i) k = (ms ! i) k)) \<and>
           (\<not> is_empty_content ((ms ! i) ''content'') \<longrightarrow> kw_messages kw ! i = ms ! i))"
  by (simp add: chat_state build_kwargs_fields sanitize_empty_content_def)

theorem chat_sanitizes_witness:
  "is_empty_content ([''role'' \<mapsto> PStr ''assistant''] ''content'') \<and>
   is_empty_content ([''role'' \<mapsto> PStr ''tool'', ''content'' \<mapsto> PNone] ''content'') \<and>
   is_empty_content ([''role'' \<mapsto> PStr ''user'', ''content'' \<mapsto> PStr []] ''content'') \<and>
   \<not> is_empty_content ([''role'' \<mapsto> PStr ''user'', ''content'' \<mapsto> PStr ''hi''] ''content'') \<and>
   (\<exists>kw. completions_sent (snd (snd (chat ev_down
            [[''role'' \<mapsto> PStr ''assistant''],
             [''role'' \<mapsto> PStr ''tool'', ''content'' \<mapsto> PNone],
             [''role'' \<mapsto> PStr ''user'', ''content'' \<mapsto> PStr []],
             [''role'' \<mapsto> PStr ''user'', ''content'' \<mapsto> PStr ''hi'']] None None 16 1 fresh))) = [kw] \<and>
      (kw_messages kw ! 0) ''content'' = Some (PStr []) \<and>
      (kw_messages kw ! 0) ''role'' = Some (PStr ''assistant'') \<and>
      (kw_messages kw ! 1) ''content'' = Some (PStr []) \<and>
      (kw_messages kw ! 2) ''content'' = Some (PStr []) \<and>
      (kw_messages kw ! 3) ''content'' = Some (PStr ''hi''))"
proof -
  let ?ms = "[[''role'' \<mapsto> PStr ''assistant''],
             [''role'' \<mapsto> PStr ''tool'', ''content'' \<mapsto> PNone],
             [''role'' \<mapsto> PStr ''user'', ''content'' \<mapsto> PStr []],
             [''role'' \<mapsto> PStr ''user'', ''content'' \<mapsto> PStr ''hi'']]"
  have e: "completions_sent (snd fresh) = []" by (simp add: fresh_eq)
  from chat_sanitizes [of ev_down ?ms None None 16 1 "fst fresh" "snd fresh"]
  obtain kw where k: "completions_sent (snd (snd (chat ev_down ?ms None None 16 1 fresh))) = [kw]"
    and a: "\<forall>i<4.
           (is_empty_content ((?ms ! i) ''content'') \<longrightarrow>
              (kw_messages kw ! i) ''content'' = Some (PStr []) \<and>
              (\<forall>k. k \<noteq> ''content'' \<longrightarrow> (kw_messages kw ! i) k = (?ms ! i) k)) \<and>
           (\<not> is_empty_content ((?ms ! i) ''content'') \<longrightarrow> kw_messages kw ! i = ?ms ! i)"
    by (auto simp: e)
  have i: "is_empty_content ([''role'' \<mapsto> PStr ''assistant''] ''content'')"
    "is_empty_content ([''role'' \<mapsto> PStr ''tool'', ''content'' \<mapsto> PNone] ''content'')"
    "is_empty_content ([''role'' \<mapsto> PStr ''user'', ''content'' \<mapsto> PStr []] ''content'')"
    "\<not> is_empty_content ([''role'' \<mapsto> PStr ''user'', ''content'' \<mapsto> PStr ''hi''] ''content'')"
    by (simp_all add: is_empty_content_def)
  have "(kw_messages kw ! 0) ''content'' = Some (PStr [])"
      "(kw_messages kw ! 0) ''role'' = Some (PStr ''assistant'')"
      "(kw_messages kw ! 1) ''content'' = Some (PStr [])"
      "(kw_messages kw ! 2) ''content'' = Some (PStr [])"
      "(kw_messages kw ! 3) ''content'' = Some (PStr ''hi'')"
    using a [rule_format, of 0] a [rule_format, of 1] a [rule_format, of 2] a [rule_format, of 3] i
    by simp_all
  with k i show ?thesis by blast
qed

section \<open>Reading the reply\<close>

text \<open>
  C6. When the endpoint replies and \<^verbatim>\<open>_parse\<close> returns, \<open>chat\<close> returns that response.
  Its finish reason is \<^verbatim>\<open>"stop"\<close> when the first choice has none (or an empty one) and
  the vendor's otherwise; its usage is the empty mapping when the reply has no usage and
  the three counts otherwise; its reasoning content is \<^verbatim>\<open>None\<close> when the message has no
  such attribute or it is \<^verbatim>\<open>None\<close>, and the supplied text otherwise (an empty text
  counts as none).
\<close>

theorem chat_parse_defaults:
  assumes "chat_completions_create ev (length (completions_sent w))
             (build_kwargs p ms tools model mt temp) = Inr r"
    and "parse ev r = Inr resp"
    and "cc_choices r = c # cs"
  shows "fst (chat ev ms tools model mt temp (p, w)) = Inr resp \<and>
     (ch_finish_reason c = None \<or> ch_finish_reason c = Some [] \<longrightarrow>
        finish_reason resp = ''stop'') \<and>
     (\<forall>s. ch_finish_reason c = Some s \<and> s \<noteq> [] \<longrightarrow> finish_reason resp = s) \<and>
     (cc_usage r = None \<longrightarrow> usage resp = Map.empty) \<and>
     (\<forall>u. cc_usage r = Some u \<longrightarrow>
        usage resp = [''prompt_tokens'' \<mapsto> prompt_tokens u,
                      ''completion_tokens'' \<mapsto> completion_tokens u,
                      ''total_tokens'' \<mapsto> total_tokens u]) \<and>
     (msg_reasoning_content (ch_message c) = None \<or>
      msg_reasoning_content (ch_message c) = Some None \<longrightarrow> reasoning_content resp = None) \<and>
     (\<forall>s. msg_reasoning_content (ch_message c) = Some (Some s) \<longrightarrow>
        reasoning_content resp = (if s \<noteq> [] then Some s else None))"
proof -
  have "fst (chat ev ms tools model mt temp (p, w)) = Inr resp"
    using assms(1,2) by (simp add: chat_result)
  then show ?thesis
    using parse_fields(3,4,5) [OF assms(2,3)] by auto
qed

theorem chat_parse_defaults_witness:
  "(\<exists>resp. parse (serving reply_plain) reply_plain = Inr resp \<and>
      fst (chat (serving reply_plain) [] None None 16 1 fresh) = Inr resp \<and>
      finish_reason resp = ''stop'' \<and> usage resp = Map.empty \<and> reasoning_content resp = None) \<and>
   (\<exists>resp. parse (serving reply_full) reply_full = Inr resp \<and>
      fst (chat (serving reply_full) [] None None 16 1 fresh) = Inr resp \<and>
      finish_reason resp = ''length'' \<and>
      usage resp = [''prompt_tokens'' \<mapsto> 5, ''completion_tokens'' \<mapsto> 7, ''total_tokens'' \<mapsto> 12] \<and>
      reasoning_content resp = Some ''thinking'')"
proof -
  have s: "chat_completions_create (serving r) k kw = Inr r" for r k kw
    by (simp add: serving_def)
  obtain r1 where 1: "parse (serving reply_plain) reply_plain = Inr r1"
    by (simp add: parse_def reply_plain_def)
  obtain r2 where 2: "parse (serving reply_full) reply_full = Inr r2"
    by (simp add: parse_def reply_full_def)
  have c1: "cc_choices reply_plain =
      [\<lparr>ch_message = \<lparr>msg_content = Some ''hi'', msg_tool_calls = None,
                       msg_reasoning_content = None\<rparr>, ch_finish_reason = None\<rparr>]"
    by (simp add: reply_plain_def)
  have c2: "cc_choices reply_full =
      [\<lparr>ch_message = \<lparr>msg_content = Some ''hi'', msg_tool_calls = Some [],
                       msg_reasoning_content = Some (Some ''thinking'')\<rparr>,
        ch_finish_reason = Some ''length''\<rparr>]"
    by (simp add: reply_full_def)
  have u1: "cc_usage reply_plain = None" by (simp add: reply_plain_def)
  have u2: "cc_usage reply_full =
      Some \<lparr>prompt_tokens = 5, completion_tokens = 7, total_tokens = 12\<rparr>"
    by (simp add: reply_full_def)
  show ?thesis
    using chat_parse_defaults [where p = "fst fresh" and w = "snd fresh" and ms = "[]"
          and tools = None and model = None and mt = 16 and temp = 1, OF s 1 c1]
      chat_parse_defaults [where p = "fst fresh" and w = "snd fresh" and ms = "[]"
          and tools = None and model = None and mt = 16 and temp = 1, OF s 2 c2]
    by (simp add: 1 2 u1 u2)
qed

text \<open>
  C7. When the first choice of the reply carries the tool calls \<open>tcs\<close>, each with a
  string as arguments on which the repair step returns a value, \<open>chat\<close> returns a
  response with as many requests as tool calls, in the same order, each with the id and
  name of its tool call and with the value the repair step returned as arguments. No
  check of the string comes before the repair step, so a malformed string is treated
  like any other.
\<close>

theorem chat_tool_calls:
  assumes "chat_completions_create ev (length (completions_sent w))
             (build_kwargs p ms tools model mt temp) = Inr r"
    and "cc_choices r = c # cs"
    and "msg_tool_calls (ch_message c) = Some tcs"
    and "\<forall>tc\<in>set tcs. \<exists>s v. fn_arguments (tc_function tc) = PStr s \<and>
           json_repair_loads ev s = Inr v"
  shows "\<exists>resp. fst (chat ev ms tools model mt temp (p, w)) = Inr resp \<and>
           length (tool_calls resp) = length tcs \<and>
           list_all2 (\<lambda>tc rq. tcr_id rq = tc_id tc \<and> tcr_name rq = fn_name (tc_function tc) \<and>
              (\<exists>s. fn_arguments (tc_function tc) = PStr s \<and>
                   json_repair_loads ev s = Inr (tcr_arguments rq))) tcs (tool_calls resp)"
proof -
  from tool_call_requests_all [OF assms(4)]
  obtain reqs where q: "tool_call_requests ev tcs = Inr reqs"
    "list_all2 (\<lambda>tc rq. tcr_id rq = tc_id tc \<and> tcr_name rq = fn_name (tc_function tc) \<and>
              (\<exists>s. fn_arguments (tc_function tc) = PStr s \<and>
                   json_repair_loads ev s = Inr (tcr_arguments rq))) tcs reqs"
    by blast
  from parse_succeeds [OF assms(2), of ev reqs] q(1) assms(3)
  obtain resp where r: "parse ev r = Inr resp" "tool_calls resp = reqs"
    by auto
  have "fst (chat ev ms tools model mt temp (p, w)) = Inr resp"
    using assms(1) r(1) by (simp add: chat_result)
  moreover have "length (tool_calls resp) = length tcs"
    using q(2) r(2) by (simp add: list_all2_lengthD)
  ultimately show ?thesis using q(2) r(2) by simp
qed

theorem chat_tool_calls_witness:
  "repair ''[3]'' = Inr (PList [PInt 3]) \<and>
   repair ''[1, 2,]'' = Inr (PList [PInt 1, PInt 2]) \<and>
   (\<exists>resp. fst (chat (serving reply_tools) [] None None 16 1 fresh) = Inr resp \<and>
      tool_calls resp =
        [\<lparr>tcr_id = ''call_1'', tcr_name = ''read'', tcr_arguments = PList [PInt 3]\<rparr>,
         \<lparr>tcr_id = ''call_2'', tcr_name = ''write'', tcr_arguments = PList [PInt 1, PInt 2]\<rparr>])"
proof -
  let ?tcs = "[\<lparr>tc_id = ''call_1'',
                 tc_function = \<lparr>fn_name = ''read'', fn_arguments = PStr ''[3]''\<rparr>\<rparr>,
               \<lparr>tc_id = ''call_2'',
                 tc_function = \<lparr>fn_name = ''write'', fn_arguments = PStr ''[1, 2,]''\<rparr>\<rparr>]"
  let ?c = "\<lparr>ch_message = \<lparr>msg_content = None, msg_tool_calls = Some ?tcs,
                           msg_reasoning_content = None\<rparr>,
             ch_finish_reason = Some ''tool_calls''\<rparr>"
  have s: "chat_completions_create (serving r) k kw = Inr r" for r k kw
    by (simp add: serving_def)
  have l: "json_repair_loads (serving r) = repair" for r
    by (simp add: serving_def)
  have c: "cc_choices reply_tools = ?c # []" by (simp add: reply_tools_def)
  have t: "msg_tool_calls (ch_message ?c) = Some ?tcs" by simp
  have r1: "repair ''[3]'' = Inr (PList [PInt 3])"
    and r2: "repair ''[1, 2,]'' = Inr (PList [PInt 1, PInt 2])"
    by (simp_all add: repair_def)
  have a: "\<forall>tc\<in>set ?tcs. \<exists>s v. fn_arguments (tc_function tc) = PStr s \<and>
             json_repair_loads (serving reply_tools) s = Inr v"
    by (simp add: l r1 r2)
  from chat_tool_calls [where p = "fst fresh" and w = "snd fresh" and ms = "[]"
      and tools = None and model = None and mt = 16 and temp = 1, OF s c t a]
  obtain resp where x: "fst (chat (serving reply_tools) [] None None 16 1 fresh) = Inr resp"
    "list_all2 (\<lambda>tc rq. tcr_id rq = tc_id tc \<and> tcr_name rq = fn_name (tc_function tc) \<and>
        (\<exists>s. fn_arguments (tc_function tc) = PStr s \<and>
             json_repair_loads (serving reply_tools) s = Inr (tcr_arguments rq))) ?tcs
       (tool_calls resp)"
    by auto
  from x(2) have "tool_calls resp =
        [\<lparr>tcr_id = ''call_1'', tcr_name = ''read'', tcr_arguments = PList [PInt 3]\<rparr>,
         \<lparr>tcr_id = ''call_2'', tcr_name = ''write'', tcr_arguments = PList [PInt 1, PInt 2]\<rparr>]"
    by (auto simp: list_all2_Cons1 l r1 r2)
  with x(1) r1 r2 show ?thesis by blast
qed

end
